theory Spec2Isabelle
  imports Complex_Main
begin

section \<open>Data model\<close>

text \<open>
  The program keeps one \<open>datetime\<close> per observation. Every datetime it builds comes from
  \<open>strptime\<close> with a date-only format or from \<open>datetime(ano, mes, 1)\<close>, so the time of day
  is always midnight and a datetime is modelled by its calendar fields. Python integers are
  unbounded: \<open>int\<close>.

  The measured values are Python floats. A record is parametric in the type \<open>'f\<close> of float
  values: the loader, the validation and the display only store, move and print them, so
  nothing about \<open>'f\<close> is used there, and a value may be any float, NaN and the infinities
  included. The wettest-month report adds and compares floats, and the comparison decides
  which key it returns: it takes the float addition, the float zero and the float \<open>>\<close> as
  parameters. The average of minimum temperatures only adds and divides, and no test of
  that function reads a value: there the values are taken as reals (the specification's
  data model calls them finite real numbers), so the rounding of the reported average is
  outside the model.
\<close>

record datetime =
  year :: int
  month :: int
  day :: int

record 'f registro =
  data :: datetime
  precipitacao :: "'f"
  temp_max :: "'f"
  temp_min :: "'f"
  umidade :: "'f"
  vento :: "'f"

text \<open>The exceptions the modelled code can raise.\<close>

datatype erro = FileNotFoundError | OSError | StopIteration | ValueError | ZeroDivisionError

text \<open>Chronological order of two datetimes (Python's \<open><=\<close> on datetime objects).\<close>

definition datetime_le :: "datetime \<Rightarrow> datetime \<Rightarrow> bool" where
  "datetime_le a b =
     (if year a < year b then True
      else if year b < year a then False
      else if month a < month b then True
      else if month b < month a then False
      else day a \<le> day b)"

definition is_leap :: "int \<Rightarrow> bool" where
  "is_leap y = (if y mod 4 = 0 then (if y mod 100 = 0 then y mod 400 = 0 else True) else False)"

definition days_in_month :: "int \<Rightarrow> int \<Rightarrow> int" where
  "days_in_month y m =
     (if m = 2 then (if is_leap y then 29 else 28)
      else if m = 4 \<or> m = 6 \<or> m = 9 \<or> m = 11 then 30
      else 31)"

text \<open>The constructor \<open>datetime(y, m, d)\<close>: it raises ValueError outside the calendar.\<close>

definition datetime_new :: "int \<Rightarrow> int \<Rightarrow> int \<Rightarrow> erro + datetime" where
  "datetime_new y m d =
     (if 1 \<le> y \<and> y \<le> 9999 \<and> 1 \<le> m \<and> m \<le> 12 \<and> 1 \<le> d \<and> d \<le> days_in_month y m
      then Inr \<lparr>year = y, month = m, day = d\<rparr>
      else Inl ValueError)"

section \<open>Date-range validation\<close>

definition validar_intervalo_datas ::
    "'f registro list \<Rightarrow> int \<Rightarrow> int \<Rightarrow> int \<Rightarrow> int \<Rightarrow> bool" where
  "validar_intervalo_datas dados mes_inicio ano_inicio mes_fim ano_fim =
     (if \<not> (1 \<le> mes_inicio \<and> mes_inicio \<le> 12 \<and> 1 \<le> mes_fim \<and> mes_fim \<le> 12) then False
      else if \<not> (1961 \<le> ano_inicio \<and> ano_inicio \<le> 2016 \<and> 1961 \<le> ano_fim \<and> ano_fim \<le> 2016)
        then False
      else if ano_inicio > ano_fim \<or> (ano_inicio = ano_fim \<and> mes_inicio > mes_fim) then False
      else True)"

section \<open>Loading the file\<close>

text \<open>
  What \<open>open\<close> and \<open>csv.reader\<close> give the loader: the file is missing, it opens and cannot
  be read (an I/O or decoding fault), or it is read as a sequence of rows, each a list of
  column texts, the header row first.
\<close>

datatype arquivo = Inexistente | Ilegivel | Conteudo "string list list"

text \<open>
  The dictionary literal of the loop body. Its values are evaluated in source order, so the
  first conversion that raises decides the exception. The two library conversions,
  \<open>datetime.strptime(_, '%d/%m/%Y')\<close> and \<open>float\<close>, are parameters of the loader: what is
  proved about the loader holds whatever texts they accept. The function is only called on
  rows of six or more columns, where the six reads are in range.
\<close>

definition converter_linha ::
    "(string \<Rightarrow> erro + datetime) \<Rightarrow> (string \<Rightarrow> erro + 'f) \<Rightarrow> string list \<Rightarrow> erro + 'f registro" where
  "converter_linha strptime to_float linha =
     (case strptime (linha ! 0) of Inl e \<Rightarrow> Inl e | Inr d \<Rightarrow>
      case to_float (linha ! 1) of Inl e \<Rightarrow> Inl e | Inr p \<Rightarrow>
      case to_float (linha ! 2) of Inl e \<Rightarrow> Inl e | Inr tmax \<Rightarrow>
      case to_float (linha ! 3) of Inl e \<Rightarrow> Inl e | Inr tmin \<Rightarrow>
      case to_float (linha ! 4) of Inl e \<Rightarrow> Inl e | Inr u \<Rightarrow>
      case to_float (linha ! 5) of Inl e \<Rightarrow> Inl e | Inr v \<Rightarrow>
        Inr \<lparr>data = d, precipitacao = p, temp_max = tmax, temp_min = tmin,
             umidade = u, vento = v\<rparr>)"

text \<open>The \<open>for linha in leitor\<close> loop; \<open>dados\<close> is the list being appended to.\<close>

fun ler_linhas ::
    "(string \<Rightarrow> erro + datetime) \<Rightarrow> (string \<Rightarrow> erro + 'f) \<Rightarrow> string list list \<Rightarrow>
     'f registro list \<Rightarrow> erro + 'f registro list" where
  "ler_linhas strptime to_float [] dados = Inr dados"
| "ler_linhas strptime to_float (linha # resto) dados =
     (if 6 \<le> length linha then
        (case converter_linha strptime to_float linha of
           Inl e \<Rightarrow> Inl e
         | Inr r \<Rightarrow> ler_linhas strptime to_float resto (dados @ [r]))
      else ler_linhas strptime to_float resto dados)"

text \<open>
  The body of the \<open>try\<close> block: \<open>next(leitor)\<close> discards the header and raises
  StopIteration when there is none.
\<close>

definition carregar_corpo ::
    "(string \<Rightarrow> erro + datetime) \<Rightarrow> (string \<Rightarrow> erro + 'f) \<Rightarrow> arquivo \<Rightarrow> erro + 'f registro list" where
  "carregar_corpo strptime to_float arq =
     (case arq of
        Inexistente \<Rightarrow> Inl FileNotFoundError
      | Ilegivel \<Rightarrow> Inl OSError
      | Conteudo [] \<Rightarrow> Inl StopIteration
      | Conteudo (cabecalho # linhas) \<Rightarrow> ler_linhas strptime to_float linhas [])"

text \<open>
  The two handlers: \<open>except FileNotFoundError\<close> and \<open>except Exception\<close> both return the
  empty list (the messages they print are not modelled).
\<close>

definition carregar_dados ::
    "(string \<Rightarrow> erro + datetime) \<Rightarrow> (string \<Rightarrow> erro + 'f) \<Rightarrow> arquivo \<Rightarrow> 'f registro list" where
  "carregar_dados strptime to_float arq =
     (case carregar_corpo strptime to_float arq of
        Inl FileNotFoundError \<Rightarrow> []
      | Inl e \<Rightarrow> []
      | Inr dados \<Rightarrow> dados)"

subsection \<open>The library conversions on concrete texts\<close>

definition is_digit :: "char \<Rightarrow> bool" where
  "is_digit c = (c \<in> set ''0123456789'')"

definition digit_val :: "char \<Rightarrow> nat" where
  "digit_val c = of_char c - 48"

definition digits_val :: "string \<Rightarrow> nat" where
  "digits_val s = foldl (\<lambda>a c. 10 * a + digit_val c) 0 s"

fun split_barra :: "string \<Rightarrow> string list" where
  "split_barra [] = [[]]"
| "split_barra (c # cs) =
     (if c = CHR ''/'' then [] # split_barra cs
      else (case split_barra cs of [] \<Rightarrow> [[c]] | p # ps \<Rightarrow> (c # p) # ps))"

text \<open>
  The directives of \<open>'%d/%m/%Y'\<close> as the standard library matches them:
  \<open>%d\<close> is \<open>3[0-1]|[1-2]\d|0[1-9]|[1-9]| [1-9]\<close>, \<open>%m\<close> is \<open>1[0-2]|0[1-9]|[1-9]\<close> and
  \<open>%Y\<close> is four digits. No directive matches a slash and the whole text must be consumed,
  so the text has exactly three slash-separated parts; the fields then go through the
  datetime constructor. (Characters are bytes here: digits are the ASCII digits.)
\<close>

definition campo_dia :: "string \<Rightarrow> bool" where
  "campo_dia s =
     (case s of
        [a] \<Rightarrow> is_digit a \<and> a \<noteq> CHR ''0''
      | [a, b] \<Rightarrow>
          (a = CHR ''3'' \<and> (b = CHR ''0'' \<or> b = CHR ''1''))
          \<or> ((a = CHR ''1'' \<or> a = CHR ''2'') \<and> is_digit b)
          \<or> ((a = CHR ''0'' \<or> a = CHR '' '') \<and> is_digit b \<and> b \<noteq> CHR ''0'')
      | _ \<Rightarrow> False)"

definition campo_mes :: "string \<Rightarrow> bool" where
  "campo_mes s =
     (case s of
        [a] \<Rightarrow> is_digit a \<and> a \<noteq> CHR ''0''
      | [a, b] \<Rightarrow>
          (a = CHR ''1'' \<and> (b = CHR ''0'' \<or> b = CHR ''1'' \<or> b = CHR ''2''))
          \<or> (a = CHR ''0'' \<and> is_digit b \<and> b \<noteq> CHR ''0'')
      | _ \<Rightarrow> False)"

definition campo_ano :: "string \<Rightarrow> bool" where
  "campo_ano s = (length s = 4 \<and> list_all is_digit s)"

definition strptime_dmy :: "string \<Rightarrow> erro + datetime" where
  "strptime_dmy s =
     (case split_barra s of
        [d, m, y] \<Rightarrow>
          (if campo_dia d \<and> campo_mes m \<and> campo_ano y
           then datetime_new (int (digits_val y)) (int (digits_val m))
                  (int (digits_val (filter is_digit d)))
           else Inl ValueError)
      | _ \<Rightarrow> Inl ValueError)"

text \<open>
  \<open>float\<close> on plain decimal texts: an optional sign, then digits with an optional point and
  fraction, or a point and a fraction. Python's \<open>float\<close> also accepts exponents, underscores
  between digits, surrounding blanks, \<open>inf\<close> and \<open>nan\<close>; such texts are outside this
  instance, which is used to evaluate the loader on examples only.
\<close>

definition decimal_sem_sinal :: "string \<Rightarrow> erro + real" where
  "decimal_sem_sinal s =
     (let ip = takeWhile is_digit s; r = dropWhile is_digit s in
      if r = [] then (if ip = [] then Inl ValueError else Inr (real (digits_val ip)))
      else if hd r = CHR ''.'' \<and> list_all is_digit (tl r) \<and> (ip \<noteq> [] \<or> tl r \<noteq> [])
        then Inr (real (digits_val ip) + real (digits_val (tl r)) / 10 ^ length (tl r))
      else Inl ValueError)"

definition float_decimal :: "string \<Rightarrow> erro + real" where
  "float_decimal s =
     (case s of
        [] \<Rightarrow> Inl ValueError
      | c # cs \<Rightarrow>
          if c = CHR ''-'' then (case decimal_sem_sinal cs of Inl e \<Rightarrow> Inl e | Inr x \<Rightarrow> Inr (- x))
          else if c = CHR ''+'' then decimal_sem_sinal cs
          else decimal_sem_sinal s)"

section \<open>Displaying a period\<close>

text \<open>
  What \<open>visualizar_dados\<close> prints, one value per printed line. A data line carries the
  fields its format string shows; the rendering of dates and of numbers to one decimal is
  not modelled.
\<close>

datatype 'f saida =
    IntervaloInvalido
  | Titulo
  | Cabecalho int
  | Separador nat
  | LinhaTodos datetime 'f 'f 'f 'f 'f
  | LinhaPrecipitacao datetime 'f
  | LinhaTemperatura datetime 'f 'f
  | LinhaUmidadeVento datetime 'f 'f

definition cabecalho :: "int \<Rightarrow> 'f saida list" where
  "cabecalho tipo_visualizacao =
     (if tipo_visualizacao = 1 then [Cabecalho 1, Separador 70]
      else if tipo_visualizacao = 2 then [Cabecalho 2, Separador 25]
      else if tipo_visualizacao = 3 then [Cabecalho 3, Separador 40]
      else if tipo_visualizacao = 4 then [Cabecalho 4, Separador 30]
      else [])"

definition imprimir_registro :: "int \<Rightarrow> 'f registro \<Rightarrow> 'f saida list" where
  "imprimir_registro tipo_visualizacao r =
     (if tipo_visualizacao = 1
        then [LinhaTodos (data r) (precipitacao r) (temp_max r) (temp_min r) (umidade r) (vento r)]
      else if tipo_visualizacao = 2 then [LinhaPrecipitacao (data r) (precipitacao r)]
      else if tipo_visualizacao = 3 then [LinhaTemperatura (data r) (temp_max r) (temp_min r)]
      else if tipo_visualizacao = 4 then [LinhaUmidadeVento (data r) (umidade r) (vento r)]
      else [])"

text \<open>The test \<open>data_inicio <= registro['data'] <= data_fim\<close> of the display loop.\<close>

definition no_periodo :: "datetime \<Rightarrow> datetime \<Rightarrow> datetime \<Rightarrow> bool" where
  "no_periodo data_inicio data_fim d = (datetime_le data_inicio d \<and> datetime_le d data_fim)"

fun percorrer_registros ::
    "datetime \<Rightarrow> datetime \<Rightarrow> int \<Rightarrow> 'f registro list \<Rightarrow> 'f saida list" where
  "percorrer_registros data_inicio data_fim tipo_visualizacao [] = []"
| "percorrer_registros data_inicio data_fim tipo_visualizacao (r # rs) =
     (if no_periodo data_inicio data_fim (data r) then imprimir_registro tipo_visualizacao r
      else [])
     @ percorrer_registros data_inicio data_fim tipo_visualizacao rs"

definition visualizar_dados ::
    "'f registro list \<Rightarrow> int \<Rightarrow> int \<Rightarrow> int \<Rightarrow> int \<Rightarrow> int \<Rightarrow> erro + 'f saida list" where
  "visualizar_dados dados mes_inicio ano_inicio mes_fim ano_fim tipo_visualizacao =
     (if \<not> validar_intervalo_datas dados mes_inicio ano_inicio mes_fim ano_fim
      then Inr [IntervaloInvalido]
      else
        case datetime_new ano_inicio mes_inicio 1 of Inl e \<Rightarrow> Inl e | Inr data_inicio \<Rightarrow>
        case datetime_new ano_fim mes_fim 1 of Inl e \<Rightarrow> Inl e | Inr data_fim \<Rightarrow>
          Inr ([Titulo] @ cabecalho tipo_visualizacao
               @ percorrer_registros data_inicio data_fim tipo_visualizacao dados))"

text \<open>The dates of the data lines of an output, in printing order.\<close>

fun data_da_linha :: "'f saida \<Rightarrow> datetime list" where
  "data_da_linha (LinhaTodos d p tmax tmin u v) = [d]"
| "data_da_linha (LinhaPrecipitacao d p) = [d]"
| "data_da_linha (LinhaTemperatura d tmax tmin) = [d]"
| "data_da_linha (LinhaUmidadeVento d u v) = [d]"
| "data_da_linha s = []"

definition datas_exibidas :: "'f saida list \<Rightarrow> datetime list" where
  "datas_exibidas out = concat (map data_da_linha out)"

section \<open>Aggregation\<close>

text \<open>
  A Python dictionary keeps its keys in insertion order, and \<open>max\<close> scans the items in that
  order: a dictionary is an association list with at most one pair per key. Assignment
  replaces the value of a present key in place and appends an absent one.
\<close>

fun dict_set :: "'k \<Rightarrow> 'v \<Rightarrow> ('k \<times> 'v) list \<Rightarrow> ('k \<times> 'v) list" where
  "dict_set k v [] = [(k, v)]"
| "dict_set k v ((k', v') # d) =
     (if k' = k then (k', v) # d else (k', v') # dict_set k v d)"

text \<open>
  Date formatting. \<open>%B\<close> is the month's name in the process locale, which the program
  never sets: the C locale's English names (a datetime's month is always in 1..12).
  \<open>%Y\<close> is the year in decimal, zero-filled to four digits, and the f-string renders the
  year as a plain decimal integer.
\<close>

definition nome_mes :: "int \<Rightarrow> string" where
  "nome_mes m =
     (if m = 1 then ''January'' else if m = 2 then ''February'' else if m = 3 then ''March''
      else if m = 4 then ''April'' else if m = 5 then ''May'' else if m = 6 then ''June''
      else if m = 7 then ''July'' else if m = 8 then ''August''
      else if m = 9 then ''September'' else if m = 10 then ''October''
      else if m = 11 then ''November'' else if m = 12 then ''December'' else [])"

fun digitos :: "nat \<Rightarrow> string" where
  "digitos n =
     (if n < 10 then [''0123456789'' ! n]
      else digitos (n div 10) @ [''0123456789'' ! (n mod 10)])"

declare digitos.simps [simp del]

definition str_int :: "int \<Rightarrow> string" where
  "str_int i = (if i < 0 then CHR ''-'' # digitos (nat (- i)) else digitos (nat i))"

definition strftime_Y :: "datetime \<Rightarrow> string" where
  "strftime_Y d =
     (let ds = digitos (nat (year d)) in replicate (4 - length ds) (CHR ''0'') @ ds)"

definition strftime_B :: "datetime \<Rightarrow> string" where
  "strftime_B d = nome_mes (month d)"

definition strftime_B_Y :: "datetime \<Rightarrow> string" where
  "strftime_B_Y d = strftime_B d @ ''/'' @ strftime_Y d"

subsection \<open>Wettest month\<close>

text \<open>
  The float operations of the report are parameters: \<open>soma\<close> is the addition of two floats,
  \<open>zero\<close> the float that the integer \<open>0\<close> is converted to when a float is added to it, and
  \<open>maior x y\<close> the comparison \<open>x > y\<close> of two floats.

  The grouping loop. Its two statements, \<open>if mes_ano not in d: d[mes_ano] = 0\<close> and
  \<open>d[mes_ano] += precipitacao\<close>, are one step here: an absent key is entered with
  \<open>0 + precipitacao\<close>, a present one has the value added.
\<close>

fun somar_precipitacao ::
    "('f \<Rightarrow> 'f \<Rightarrow> 'f) \<Rightarrow> 'f \<Rightarrow> 'f registro list \<Rightarrow> (string \<times> 'f) list \<Rightarrow> (string \<times> 'f) list" where
  "somar_precipitacao soma zero [] precipitacao_por_mes = precipitacao_por_mes"
| "somar_precipitacao soma zero (r # rs) precipitacao_por_mes =
     (let mes_ano = strftime_B_Y (data r) in
      somar_precipitacao soma zero rs
        (case map_of precipitacao_por_mes mes_ano of
           None \<Rightarrow> dict_set mes_ano (soma zero (precipitacao r)) precipitacao_por_mes
         | Some s \<Rightarrow> dict_set mes_ano (soma s (precipitacao r)) precipitacao_por_mes))"

text \<open>
  \<open>max(items, key=lambda x: x[1])\<close>: the scan keeps its candidate unless a later item has a
  value that compares greater, and an empty sequence raises ValueError.
\<close>

fun max_scan :: "('f \<Rightarrow> 'f \<Rightarrow> bool) \<Rightarrow> ('k \<times> 'f) \<Rightarrow> ('k \<times> 'f) list \<Rightarrow> ('k \<times> 'f)" where
  "max_scan maior best [] = best"
| "max_scan maior best (x # xs) =
     max_scan maior (if maior (snd x) (snd best) then x else best) xs"

definition max_por_valor :: "('f \<Rightarrow> 'f \<Rightarrow> bool) \<Rightarrow> ('k \<times> 'f) list \<Rightarrow> erro + ('k \<times> 'f)" where
  "max_por_valor maior items =
     (case items of [] \<Rightarrow> Inl ValueError | x # xs \<Rightarrow> Inr (max_scan maior x xs))"

definition mes_mais_chuvoso ::
    "('f \<Rightarrow> 'f \<Rightarrow> 'f) \<Rightarrow> 'f \<Rightarrow> ('f \<Rightarrow> 'f \<Rightarrow> bool) \<Rightarrow> 'f registro list \<Rightarrow> erro + (string \<times> 'f)" where
  "mes_mais_chuvoso soma zero maior dados =
     max_por_valor maior (somar_precipitacao soma zero dados [])"

text \<open>
  What the proofs use of the comparison \<open>>\<close> of floats: no float is greater than itself,
  the comparison is transitive, and a float that is not greater than \<open>y\<close> is not greater
  than anything greater than \<open>y\<close>. The three hold of IEEE doubles, NaN included: every
  comparison with NaN is false, and the other doubles are ordered by their values.
\<close>

definition comparacao_de_floats :: "('f \<Rightarrow> 'f \<Rightarrow> bool) \<Rightarrow> bool" where
  "comparacao_de_floats maior =
     ((\<forall>x. \<not> maior x x)
      \<and> (\<forall>x y z. maior x y \<longrightarrow> maior y z \<longrightarrow> maior x z)
      \<and> (\<forall>x y z. \<not> maior x y \<longrightarrow> maior z y \<longrightarrow> \<not> maior x z))"

subsection \<open>Average minimum temperature of a month\<close>

definition chave_mes_ano :: "datetime \<Rightarrow> string" where
  "chave_mes_ano d = strftime_B d @ str_int (year d)"

text \<open>The first loop: the minimum temperatures of the matching records, listed per key.\<close>

fun agrupar_temp_min ::
    "int \<Rightarrow> real registro list \<Rightarrow> (string \<times> real list) list \<Rightarrow> (string \<times> real list) list" where
  "agrupar_temp_min mes [] medias_por_ano = medias_por_ano"
| "agrupar_temp_min mes (r # rs) medias_por_ano =
     (if 2006 \<le> year (data r) \<and> year (data r) \<le> 2016 \<and> month (data r) = mes then
        (let chave = chave_mes_ano (data r) in
         agrupar_temp_min mes rs
           (case map_of medias_por_ano chave of
              None \<Rightarrow> dict_set chave ([] @ [temp_min r]) medias_por_ano
            | Some vs \<Rightarrow> dict_set chave (vs @ [temp_min r]) medias_por_ano))
      else agrupar_temp_min mes rs medias_por_ano)"

text \<open>
  The second loop replaces each list by \<open>sum(list) / len(list)\<close>; \<open>sum\<close> adds from the left
  starting at 0, and dividing by a zero length raises.
\<close>

fun calcular_medias :: "(string \<times> real list) list \<Rightarrow> erro + (string \<times> real) list" where
  "calcular_medias [] = Inr []"
| "calcular_medias ((chave, vs) # resto) =
     (if length vs = 0 then Inl ZeroDivisionError
      else (case calcular_medias resto of
              Inl e \<Rightarrow> Inl e
            | Inr ms \<Rightarrow> Inr ((chave, foldl (+) 0 vs / real (length vs)) # ms)))"

definition media_temp_minima_mes ::
    "real registro list \<Rightarrow> int \<Rightarrow> erro + (string \<times> real) list" where
  "media_temp_minima_mes dados mes =
     (if \<not> (1 \<le> mes \<and> mes \<le> 12) then Inr []
      else calcular_medias (agrupar_temp_min mes dados []))"

section \<open>Properties of the range validation\<close>

text \<open>
  C6. For all integers m1, y1, m2, y2 the validation is false whenever a month is outside
  1..12, a year is outside 1961..2016, the start year is after the end year, or the years are
  equal and the start month is after the end month; otherwise it is true. It is a total
  boolean function: there is no input on which it raises.
\<close>

theorem validar_intervalo_datas_spec:
  "validar_intervalo_datas dados m1 y1 m2 y2 =
     (\<not> (m1 < 1 \<or> 12 < m1 \<or> m2 < 1 \<or> 12 < m2
         \<or> y1 < 1961 \<or> 2016 < y1 \<or> y2 < 1961 \<or> 2016 < y2
         \<or> y2 < y1 \<or> (y1 = y2 \<and> m2 < m1)))"
  unfolding validar_intervalo_datas_def by auto

theorem validar_intervalo_datas_spec_witness:
  "validar_intervalo_datas ([] :: real registro list) 1 2015 3 2015
   \<and> \<not> validar_intervalo_datas ([] :: real registro list) 13 2015 3 2015
   \<and> \<not> validar_intervalo_datas ([] :: real registro list) 1 1960 3 2015
   \<and> \<not> validar_intervalo_datas ([] :: real registro list) 1 2016 3 2015
   \<and> \<not> validar_intervalo_datas ([] :: real registro list) 4 2015 3 2015"
  using validar_intervalo_datas_spec [of "[] :: real registro list" 1 2015 3 2015]
    validar_intervalo_datas_spec [of "[] :: real registro list" 13 2015 3 2015]
    validar_intervalo_datas_spec [of "[] :: real registro list" 1 1960 3 2015]
    validar_intervalo_datas_spec [of "[] :: real registro list" 1 2016 3 2015]
    validar_intervalo_datas_spec [of "[] :: real registro list" 4 2015 3 2015]
  by simp

text \<open>
  C10. The validation does not depend on the loaded data: for any two record collections
  and the same months and years it gives the same answer. It never looks at the records.
\<close>

theorem validar_intervalo_datas_independente:
  "validar_intervalo_datas d1 m1 y1 m2 y2 = validar_intervalo_datas d2 m1 y1 m2 y2"
  by (simp add: validar_intervalo_datas_def)

theorem validar_intervalo_datas_independente_witness:
  "validar_intervalo_datas ([] :: real registro list)
     1 2015 3 2015
   = validar_intervalo_datas
       [\<lparr>data = \<lparr>year = 1950, month = 7, day = 9\<rparr>, precipitacao = (1::real), temp_max = 2,
         temp_min = 3, umidade = 4, vento = 5\<rparr>]
       1 2015 3 2015"
  using validar_intervalo_datas_independente
    [of "[] :: real registro list" 1 2015 3 2015
        "[\<lparr>data = \<lparr>year = 1950, month = 7, day = 9\<rparr>, precipitacao = (1::real), temp_max = 2,
           temp_min = 3, umidade = 4, vento = 5\<rparr>]"]
  by simp

section \<open>Properties of the loader\<close>

lemma ler_linhas_ok:
  "ler_linhas sp fl ls acc = Inr ds \<Longrightarrow>
   \<exists>novos. ds = acc @ novos
     \<and> map Inr novos = map (converter_linha sp fl) (filter (\<lambda>l. 6 \<le> length l) ls)"
proof (induction ls arbitrary: acc)
  case Nil
  then show ?case by simp
next
  case (Cons l ls)
  show ?case
  proof (cases "6 \<le> length l")
    case False
    with Cons show ?thesis by simp
  next
    case True
    with Cons.prems obtain r where r: "converter_linha sp fl l = Inr r"
      and rest: "ler_linhas sp fl ls (acc @ [r]) = Inr ds"
      by (auto split: sum.splits)
    from Cons.IH [OF rest] obtain novos where
      "ds = (acc @ [r]) @ novos"
      "map Inr novos = map (converter_linha sp fl) (filter (\<lambda>l. 6 \<le> length l) ls)"
      by blast
    with True r show ?thesis
      by (intro exI [of _ "r # novos"]) simp
  qed
qed

lemma ler_linhas_falha:
  "l \<in> set ls \<Longrightarrow> 6 \<le> length l \<Longrightarrow> converter_linha sp fl l = Inl e \<Longrightarrow>
   \<exists>e'. ler_linhas sp fl ls acc = Inl e'"
proof (induction ls arbitrary: acc)
  case Nil
  then show ?case by simp
next
  case (Cons x ls)
  show ?case
  proof (cases "x = l")
    case True
    with Cons.prems show ?thesis by simp
  next
    case False
    with Cons.prems have "l \<in> set ls" by simp
    from Cons.IH [OF this Cons.prems(2,3)] show ?thesis
      by (simp split: sum.split)
  qed
qed

lemma length_filter_map_Inr:
  assumes "map Inr novos = map f (filter P ls)"
  shows "length novos \<le> length ls"
proof -
  from assms have "length novos = length (filter P ls)"
    by (rule map_eq_imp_length_eq)
  then show ?thesis by simp
qed

lemmas conv_defs = converter_linha_def strptime_dmy_def campo_dia_def campo_mes_def
  campo_ano_def is_digit_def digits_val_def digit_val_def datetime_new_def
  days_in_month_def is_leap_def float_decimal_def decimal_sem_sinal_def

text \<open>
  C8. When the load succeeds (the body of the \<open>try\<close> raises nothing), the file has a header
  row, and the records returned are the conversions of the rows after the header that have
  six or more columns, in the order of those rows: a row with fewer than six columns gives
  no record, and there are at most as many records as rows minus the header.
\<close>

theorem carregar_dados_ordem:
  assumes "carregar_corpo sp fl arq = Inr dados"
  shows "carregar_dados sp fl arq = dados
     \<and> (\<exists>cab linhas. arq = Conteudo (cab # linhas)
          \<and> map Inr dados = map (converter_linha sp fl) (filter (\<lambda>l. 6 \<le> length l) linhas)
          \<and> length dados + 1 \<le> length (cab # linhas))"
proof
  show "carregar_dados sp fl arq = dados"
    using assms by (simp add: carregar_dados_def)
next
  from assms obtain cab linhas where arq: "arq = Conteudo (cab # linhas)"
    and l: "ler_linhas sp fl linhas [] = Inr dados"
    by (auto simp: carregar_corpo_def split: arquivo.splits list.splits)
  from ler_linhas_ok [OF l] have
    m: "map Inr dados = map (converter_linha sp fl) (filter (\<lambda>l. 6 \<le> length l) linhas)"
    by simp
  from length_filter_map_Inr [OF m] have "length dados + 1 \<le> length (cab # linhas)"
    by simp
  with arq m show "\<exists>cab linhas. arq = Conteudo (cab # linhas)
          \<and> map Inr dados = map (converter_linha sp fl) (filter (\<lambda>l. 6 \<le> length l) linhas)
          \<and> length dados + 1 \<le> length (cab # linhas)"
    by blast
qed

theorem carregar_dados_ordem_witness:
  "carregar_corpo strptime_dmy float_decimal
     (Conteudo [[''Data'', ''Precipitacao'', ''TempMax'', ''TempMin'', ''Umidade'', ''Vento''],
        [''01/01/2015'', ''1.0'', ''30.5'', ''20.0'', ''80.0'', ''3.5''],
        [''02/01/2015'', ''7.5''],
        [''03/01/2015'', ''0'', ''28.0'', ''19.5'', ''75.0'', ''2.0'']])
   = Inr [\<lparr>data = \<lparr>year = 2015, month = 1, day = 1\<rparr>, precipitacao = (1::real), temp_max = 30.5,
            temp_min = 20, umidade = 80, vento = 3.5\<rparr>,
          \<lparr>data = \<lparr>year = 2015, month = 1, day = 3\<rparr>, precipitacao = (0::real), temp_max = 28,
            temp_min = 19.5, umidade = 75, vento = 2\<rparr>]
   \<and> carregar_dados strptime_dmy float_decimal
     (Conteudo [[''Data'', ''Precipitacao'', ''TempMax'', ''TempMin'', ''Umidade'', ''Vento''],
        [''01/01/2015'', ''1.0'', ''30.5'', ''20.0'', ''80.0'', ''3.5''],
        [''02/01/2015'', ''7.5''],
        [''03/01/2015'', ''0'', ''28.0'', ''19.5'', ''75.0'', ''2.0'']])
   = [\<lparr>data = \<lparr>year = 2015, month = 1, day = 1\<rparr>, precipitacao = (1::real), temp_max = 30.5,
        temp_min = 20, umidade = 80, vento = 3.5\<rparr>,
      \<lparr>data = \<lparr>year = 2015, month = 1, day = 3\<rparr>, precipitacao = (0::real), temp_max = 28,
        temp_min = 19.5, umidade = 75, vento = 2\<rparr>]"
proof -
  have h: "carregar_corpo strptime_dmy float_decimal
     (Conteudo [[''Data'', ''Precipitacao'', ''TempMax'', ''TempMin'', ''Umidade'', ''Vento''],
        [''01/01/2015'', ''1.0'', ''30.5'', ''20.0'', ''80.0'', ''3.5''],
        [''02/01/2015'', ''7.5''],
        [''03/01/2015'', ''0'', ''28.0'', ''19.5'', ''75.0'', ''2.0'']])
   = Inr [\<lparr>data = \<lparr>year = 2015, month = 1, day = 1\<rparr>, precipitacao = (1::real), temp_max = 30.5,
            temp_min = 20, umidade = 80, vento = 3.5\<rparr>,
          \<lparr>data = \<lparr>year = 2015, month = 1, day = 3\<rparr>, precipitacao = (0::real), temp_max = 28,
            temp_min = 19.5, umidade = 75, vento = 2\<rparr>]"
    by (simp add: carregar_corpo_def conv_defs)
  from carregar_dados_ordem [OF h] have "carregar_dados strptime_dmy float_decimal
     (Conteudo [[''Data'', ''Precipitacao'', ''TempMax'', ''TempMin'', ''Umidade'', ''Vento''],
        [''01/01/2015'', ''1.0'', ''30.5'', ''20.0'', ''80.0'', ''3.5''],
        [''02/01/2015'', ''7.5''],
        [''03/01/2015'', ''0'', ''28.0'', ''19.5'', ''75.0'', ''2.0'']])
   = [\<lparr>data = \<lparr>year = 2015, month = 1, day = 1\<rparr>, precipitacao = (1::real), temp_max = 30.5,
        temp_min = 20, umidade = 80, vento = 3.5\<rparr>,
      \<lparr>data = \<lparr>year = 2015, month = 1, day = 3\<rparr>, precipitacao = (0::real), temp_max = 28,
        temp_min = 19.5, umidade = 75, vento = 2\<rparr>]"
    by blast
  with h show ?thesis by blast
qed

text \<open>
  C1, as the code has it. The conversions of a row are inside the one \<open>try\<close> block that
  wraps the whole read, so a row of six or more columns, after the header, whose date or
  numbers do not convert ends the load: the handler returns the empty list and no row of the
  file is returned, well-formed or not.
\<close>

theorem carregar_dados_linha_invalida:
  assumes "l \<in> set linhas" and "6 \<le> length l" and "converter_linha sp fl l = Inl e"
  shows "carregar_dados sp fl (Conteudo (cab # linhas)) = []"
proof -
  from ler_linhas_falha [OF assms] obtain e' where "ler_linhas sp fl linhas [] = Inl e'"
    by blast
  then show ?thesis
    by (simp add: carregar_dados_def carregar_corpo_def split: erro.split)
qed

theorem carregar_dados_linha_invalida_witness:
  "carregar_dados strptime_dmy float_decimal
     (Conteudo [[''Data'', ''Precipitacao'', ''TempMax'', ''TempMin'', ''Umidade'', ''Vento''],
        [''01/01/2015'', ''1.0'', ''30.5'', ''20.0'', ''80.0'', ''3.5''],
        [''31/02/2015'', ''0.0'', ''28.0'', ''19.5'', ''75.0'', ''2.0'']])
   = []"
proof -
  have "converter_linha strptime_dmy float_decimal
          [''31/02/2015'', ''0.0'', ''28.0'', ''19.5'', ''75.0'', ''2.0''] = Inl ValueError"
    by (simp add: conv_defs)
  from carregar_dados_linha_invalida [OF _ _ this,
      of "[[''01/01/2015'', ''1.0'', ''30.5'', ''20.0'', ''80.0'', ''3.5''],
           [''31/02/2015'', ''0.0'', ''28.0'', ''19.5'', ''75.0'', ''2.0'']]"
         "[''Data'', ''Precipitacao'', ''TempMax'', ''TempMin'', ''Umidade'', ''Vento'']"]
  show ?thesis by simp
qed

text \<open>
  The claim as the specification words it (only the malformed row is dropped, the load is
  never emptied by one row) fails on a file of a header, a well-formed row and a row whose
  precipitation is not a number: the first row converts, the second does not, and the load
  returns nothing.
\<close>

theorem carregar_dados_linha_invalida_counterexample:
  "converter_linha strptime_dmy float_decimal
       [''01/01/2015'', ''1.0'', ''30.5'', ''20.0'', ''80.0'', ''3.5'']
     = Inr \<lparr>data = \<lparr>year = 2015, month = 1, day = 1\<rparr>, precipitacao = (1::real), temp_max = 30.5,
           temp_min = 20, umidade = 80, vento = 3.5\<rparr>
   \<and> converter_linha strptime_dmy float_decimal
       [''02/01/2015'', ''abc'', ''30.5'', ''20.0'', ''80.0'', ''3.5'']
     = Inl ValueError
   \<and> carregar_dados strptime_dmy float_decimal
       (Conteudo [[''Data'', ''Precipitacao'', ''TempMax'', ''TempMin'', ''Umidade'', ''Vento''],
                  [''01/01/2015'', ''1.0'', ''30.5'', ''20.0'', ''80.0'', ''3.5''],
                  [''02/01/2015'', ''abc'', ''30.5'', ''20.0'', ''80.0'', ''3.5'']])
     = []"
  by (simp add: carregar_dados_def carregar_corpo_def conv_defs)

section \<open>Properties of the display filter\<close>

lemma datetime_new_primeiro_dia:
  "1 \<le> y \<Longrightarrow> y \<le> 9999 \<Longrightarrow> 1 \<le> m \<Longrightarrow> m \<le> 12 \<Longrightarrow>
   datetime_new y m 1 = Inr \<lparr>year = y, month = m, day = 1\<rparr>"
  by (simp add: datetime_new_def days_in_month_def)

lemma percorrer_registros_filter:
  "percorrer_registros di df tipo rs =
     concat (map (imprimir_registro tipo) (filter (\<lambda>r. no_periodo di df (data r)) rs))"
  by (induction rs) simp_all

lemma datas_exibidas_Nil: "datas_exibidas [] = []"
  by (simp add: datas_exibidas_def)

lemma datas_exibidas_Cons: "datas_exibidas (x # xs) = data_da_linha x @ datas_exibidas xs"
  by (simp add: datas_exibidas_def)

lemma datas_exibidas_append: "datas_exibidas (xs @ ys) = datas_exibidas xs @ datas_exibidas ys"
  by (simp add: datas_exibidas_def)

lemma datas_exibidas_cabecalho: "datas_exibidas (cabecalho tipo) = []"
  by (simp add: cabecalho_def datas_exibidas_Cons datas_exibidas_Nil)

lemma datas_exibidas_imprimir:
  "datas_exibidas (imprimir_registro tipo r) = (if 1 \<le> tipo \<and> tipo \<le> 4 then [data r] else [])"
  by (auto simp: imprimir_registro_def datas_exibidas_Cons datas_exibidas_Nil)

lemma datas_exibidas_percorrer:
  "datas_exibidas (percorrer_registros di df tipo rs) =
     (if 1 \<le> tipo \<and> tipo \<le> 4 then filter (no_periodo di df) (map data rs) else [])"
  by (induction rs)
    (simp_all add: datas_exibidas_append datas_exibidas_imprimir datas_exibidas_Nil)

lemma datas_exibidas_saida:
  "datas_exibidas ([Titulo] @ cabecalho tipo @ percorrer_registros di df tipo rs) =
     (if 1 \<le> tipo \<and> tipo \<le> 4 then filter (no_periodo di df) (map data rs) else [])"
  by (simp add: datas_exibidas_append datas_exibidas_cabecalho datas_exibidas_percorrer
      datas_exibidas_Cons datas_exibidas_Nil del: append_Cons append_Nil)

lemma visualizar_dados_valido:
  assumes "validar_intervalo_datas dados mi ai mf af"
  shows "visualizar_dados dados mi ai mf af tipo =
     Inr ([Titulo] @ cabecalho tipo
          @ percorrer_registros \<lparr>year = ai, month = mi, day = 1\<rparr>
              \<lparr>year = af, month = mf, day = 1\<rparr> tipo dados)"
proof -
  from assms have b: "1 \<le> mi" "mi \<le> 12" "1 \<le> mf" "mf \<le> 12"
    "1961 \<le> ai" "ai \<le> 2016" "1961 \<le> af" "af \<le> 2016"
    by (auto simp: validar_intervalo_datas_def split: if_splits)
  then have "datetime_new ai mi 1 = Inr \<lparr>year = ai, month = mi, day = 1\<rparr>"
    and "datetime_new af mf 1 = Inr \<lparr>year = af, month = mf, day = 1\<rparr>"
    by (simp_all add: datetime_new_primeiro_dia)
  with assms show ?thesis by (simp add: visualizar_dados_def)
qed

text \<open>
  C3. For each of the four view profiles and every record collection, a validated range
  gives the title, the header and then one line per record whose date lies between the first
  day of the start month and the first day of the end month, both included, in the order of
  the collection; the dates shown are exactly the dates of those records. In particular, for
  January 2015 to March 2015 a record dated 15/02/2015 is shown, no line dated 01/04/2015 is
  shown, and a record dated 01/03/2015, the first day of the end month, is shown.
\<close>

theorem visualizar_dados_limites:
  assumes "1 \<le> tipo" and "tipo \<le> 4"
  shows "(validar_intervalo_datas dados mi ai mf af \<longrightarrow>
      (\<exists>out. visualizar_dados dados mi ai mf af tipo = Inr out
         \<and> out = [Titulo] @ cabecalho tipo
              @ concat (map (imprimir_registro tipo)
                  (filter (\<lambda>r. datetime_le \<lparr>year = ai, month = mi, day = 1\<rparr> (data r)
                              \<and> datetime_le (data r) \<lparr>year = af, month = mf, day = 1\<rparr>) dados))
         \<and> datas_exibidas out
             = filter (\<lambda>d. datetime_le \<lparr>year = ai, month = mi, day = 1\<rparr> d
                          \<and> datetime_le d \<lparr>year = af, month = mf, day = 1\<rparr>) (map data dados)))
   \<and> (\<exists>out. visualizar_dados dados 1 2015 3 2015 tipo = Inr out
        \<and> (\<lparr>year = 2015, month = 2, day = 15\<rparr> \<in> set (datas_exibidas out)
             \<longleftrightarrow> \<lparr>year = 2015, month = 2, day = 15\<rparr> \<in> set (map data dados))
        \<and> \<lparr>year = 2015, month = 4, day = 1\<rparr> \<notin> set (datas_exibidas out)
        \<and> (\<lparr>year = 2015, month = 3, day = 1\<rparr> \<in> set (datas_exibidas out)
             \<longleftrightarrow> \<lparr>year = 2015, month = 3, day = 1\<rparr> \<in> set (map data dados)))"
proof (intro conjI impI)
  assume v: "validar_intervalo_datas dados mi ai mf af"
  let ?di = "\<lparr>year = ai, month = mi, day = 1\<rparr>" and ?df = "\<lparr>year = af, month = mf, day = 1\<rparr>"
  let ?out = "[Titulo] @ cabecalho tipo @ percorrer_registros ?di ?df tipo dados"
  have 1: "visualizar_dados dados mi ai mf af tipo = Inr ?out"
    by (rule visualizar_dados_valido [OF v])
  have 2: "percorrer_registros ?di ?df tipo dados
      = concat (map (imprimir_registro tipo)
          (filter (\<lambda>r. datetime_le ?di (data r) \<and> datetime_le (data r) ?df) dados))"
    by (simp add: percorrer_registros_filter no_periodo_def)
  have 3: "datas_exibidas ?out
      = filter (\<lambda>d. datetime_le ?di d \<and> datetime_le d ?df) (map data dados)"
    using assms unfolding datas_exibidas_saida by (simp add: no_periodo_def [abs_def])
  from 1 2 3 show "\<exists>out. visualizar_dados dados mi ai mf af tipo = Inr out
         \<and> out = [Titulo] @ cabecalho tipo
              @ concat (map (imprimir_registro tipo)
                  (filter (\<lambda>r. datetime_le ?di (data r) \<and> datetime_le (data r) ?df) dados))
         \<and> datas_exibidas out
             = filter (\<lambda>d. datetime_le ?di d \<and> datetime_le d ?df) (map data dados)"
    by simp
next
  let ?di = "\<lparr>year = 2015, month = 1, day = 1\<rparr>" and ?df = "\<lparr>year = 2015, month = 3, day = 1\<rparr>"
  let ?out = "[Titulo] @ cabecalho tipo @ percorrer_registros ?di ?df tipo dados"
  have v: "validar_intervalo_datas dados 1 2015 3 2015"
    by (simp add: validar_intervalo_datas_def)
  have 1: "visualizar_dados dados 1 2015 3 2015 tipo = Inr ?out"
    by (rule visualizar_dados_valido [OF v])
  have 3: "datas_exibidas ?out = filter (no_periodo ?di ?df) (map data dados)"
    using assms unfolding datas_exibidas_saida by simp
  have a: "no_periodo ?di ?df \<lparr>year = 2015, month = 2, day = 15\<rparr>"
    and b: "\<not> no_periodo ?di ?df \<lparr>year = 2015, month = 4, day = 1\<rparr>"
    and c: "no_periodo ?di ?df \<lparr>year = 2015, month = 3, day = 1\<rparr>"
    by (simp_all add: no_periodo_def datetime_le_def)
  show "\<exists>out. visualizar_dados dados 1 2015 3 2015 tipo = Inr out
        \<and> (\<lparr>year = 2015, month = 2, day = 15\<rparr> \<in> set (datas_exibidas out)
             \<longleftrightarrow> \<lparr>year = 2015, month = 2, day = 15\<rparr> \<in> set (map data dados))
        \<and> \<lparr>year = 2015, month = 4, day = 1\<rparr> \<notin> set (datas_exibidas out)
        \<and> (\<lparr>year = 2015, month = 3, day = 1\<rparr> \<in> set (datas_exibidas out)
             \<longleftrightarrow> \<lparr>year = 2015, month = 3, day = 1\<rparr> \<in> set (map data dados))"
  proof (intro exI conjI)
    show "visualizar_dados dados 1 2015 3 2015 tipo = Inr ?out" by (rule 1)
  qed (use a b c in \<open>simp_all only: 3 set_filter mem_Collect_eq simp_thms\<close>)
qed

theorem visualizar_dados_limites_witness:
  "(1::int) \<le> 2 \<and> (2::int) \<le> 4
   \<and> validar_intervalo_datas
        [\<lparr>data = \<lparr>year = 2015, month = 2, day = 15\<rparr>, precipitacao = (5::real), temp_max = 30,
           temp_min = 20, umidade = 80, vento = 3\<rparr>,
         \<lparr>data = \<lparr>year = 2015, month = 4, day = 1\<rparr>, precipitacao = (7::real), temp_max = 31,
           temp_min = 21, umidade = 81, vento = 4\<rparr>,
         \<lparr>data = \<lparr>year = 2015, month = 3, day = 1\<rparr>, precipitacao = (9::real), temp_max = 32,
           temp_min = 22, umidade = 82, vento = 5\<rparr>]
        1 2015 3 2015
   \<and> visualizar_dados
        [\<lparr>data = \<lparr>year = 2015, month = 2, day = 15\<rparr>, precipitacao = (5::real), temp_max = 30,
           temp_min = 20, umidade = 80, vento = 3\<rparr>,
         \<lparr>data = \<lparr>year = 2015, month = 4, day = 1\<rparr>, precipitacao = (7::real), temp_max = 31,
           temp_min = 21, umidade = 81, vento = 4\<rparr>,
         \<lparr>data = \<lparr>year = 2015, month = 3, day = 1\<rparr>, precipitacao = (9::real), temp_max = 32,
           temp_min = 22, umidade = 82, vento = 5\<rparr>]
        1 2015 3 2015 2
     = Inr [Titulo, Cabecalho 2, Separador 25,
            LinhaPrecipitacao \<lparr>year = 2015, month = 2, day = 15\<rparr> 5,
            LinhaPrecipitacao \<lparr>year = 2015, month = 3, day = 1\<rparr> 9]"
  using visualizar_dados_limites [of 2
        "[\<lparr>data = \<lparr>year = 2015, month = 2, day = 15\<rparr>, precipitacao = (5::real), temp_max = 30,
           temp_min = 20, umidade = 80, vento = 3\<rparr>,
         \<lparr>data = \<lparr>year = 2015, month = 4, day = 1\<rparr>, precipitacao = (7::real), temp_max = 31,
           temp_min = 21, umidade = 81, vento = 4\<rparr>,
         \<lparr>data = \<lparr>year = 2015, month = 3, day = 1\<rparr>, precipitacao = (9::real), temp_max = 32,
           temp_min = 22, umidade = 82, vento = 5\<rparr>]" 1 2015 3 2015]
  by (simp add: validar_intervalo_datas_def cabecalho_def imprimir_registro_def datetime_le_def)

text \<open>
  C2, as the code has it. The upper bound of the comparison is the first day of the end
  month, so for a validated range a date in the end month on a day after the 1st is later
  than the bound: no line of the output bears such a date.
\<close>

theorem visualizar_dados_mes_final:
  assumes "validar_intervalo_datas dados mi ai mf af"
    and "visualizar_dados dados mi ai mf af tipo = Inr out"
    and "year d = af" and "month d = mf" and "1 < day d"
  shows "d \<notin> set (datas_exibidas out)"
proof -
  let ?di = "\<lparr>year = ai, month = mi, day = 1\<rparr>" and ?df = "\<lparr>year = af, month = mf, day = 1\<rparr>"
  from assms(1,2) have out: "out = [Titulo] @ cabecalho tipo
      @ percorrer_registros ?di ?df tipo dados"
    by (simp add: visualizar_dados_valido)
  have "\<not> no_periodo ?di ?df d"
    using assms(3-5) by (simp add: no_periodo_def datetime_le_def)
  then show ?thesis
    unfolding out datas_exibidas_saida by simp
qed

theorem visualizar_dados_mes_final_witness:
  "\<lparr>year = 2015, month = 3, day = 15\<rparr>
     \<notin> set (datas_exibidas
          [Titulo, Cabecalho 1, Separador 70,
           LinhaTodos \<lparr>year = 2015, month = 2, day = 15\<rparr> (5::real) 30 20 80 3])"
proof -
  let ?dados = "[\<lparr>data = \<lparr>year = 2015, month = 2, day = 15\<rparr>, precipitacao = (5::real),
        temp_max = 30, temp_min = 20, umidade = 80, vento = 3\<rparr>,
      \<lparr>data = \<lparr>year = 2015, month = 3, day = 15\<rparr>, precipitacao = (9::real), temp_max = 32,
        temp_min = 22, umidade = 82, vento = 5\<rparr>]"
  have v: "validar_intervalo_datas ?dados 1 2015 3 2015"
    by (simp add: validar_intervalo_datas_def)
  have o: "visualizar_dados ?dados 1 2015 3 2015 1
      = Inr [Titulo, Cabecalho 1, Separador 70,
             LinhaTodos \<lparr>year = 2015, month = 2, day = 15\<rparr> (5::real) 30 20 80 3]"
    by (simp add: visualizar_dados_def validar_intervalo_datas_def datetime_new_def
        days_in_month_def cabecalho_def imprimir_registro_def no_periodo_def datetime_le_def)
  from visualizar_dados_mes_final [OF v o, of "\<lparr>year = 2015, month = 3, day = 15\<rparr>"]
  show ?thesis by simp
qed

text \<open>
  The claim as the specification words it (days of the end month after the 1st are still
  shown) fails for January 2015 to March 2015 on a collection holding one record dated
  15/03/2015: the range is valid, and only the title and the header are printed.
\<close>

theorem visualizar_dados_mes_final_counterexample:
  "validar_intervalo_datas
     [\<lparr>data = \<lparr>year = 2015, month = 3, day = 15\<rparr>, precipitacao = (9::real), temp_max = 32,
        temp_min = 22, umidade = 82, vento = 5\<rparr>]
     1 2015 3 2015
   \<and> visualizar_dados
     [\<lparr>data = \<lparr>year = 2015, month = 3, day = 15\<rparr>, precipitacao = (9::real), temp_max = 32,
        temp_min = 22, umidade = 82, vento = 5\<rparr>]
     1 2015 3 2015 1
     = Inr [Titulo, Cabecalho 1, Separador 70]"
  by (simp add: visualizar_dados_def validar_intervalo_datas_def datetime_new_def
      days_in_month_def cabecalho_def imprimir_registro_def no_periodo_def datetime_le_def)

section \<open>Properties of the aggregation\<close>

subsection \<open>Dictionaries and the maximum scan\<close>

lemma dict_set_nao_vazio: "dict_set k v d \<noteq> []"
  by (cases d) (auto split: if_splits)

lemma map_of_dict_set: "map_of (dict_set k v d) = (map_of d)(k \<mapsto> v)"
  by (induction d) (auto simp: fun_eq_iff)

lemma chaves_dict_set: "fst ` set (dict_set k v d) = insert k (fst ` set d)"
  unfolding dom_map_of_conv_image_fst [symmetric] map_of_dict_set by simp

lemma distinct_dict_set:
  "distinct (map fst d) \<Longrightarrow> distinct (map fst (dict_set k v d))"
  by (induction d) (auto simp: chaves_dict_set)

lemma comparacao_irreflexiva: "comparacao_de_floats maior \<Longrightarrow> \<not> maior x x"
  by (simp add: comparacao_de_floats_def)

lemma comparacao_transitiva:
  "comparacao_de_floats maior \<Longrightarrow> maior x y \<Longrightarrow> maior y z \<Longrightarrow> maior x z"
  unfolding comparacao_de_floats_def by blast

lemma comparacao_nao_maior:
  "comparacao_de_floats maior \<Longrightarrow> \<not> maior x y \<Longrightarrow> maior z y \<Longrightarrow> \<not> maior x z"
  unfolding comparacao_de_floats_def by blast

lemma comparacao_assimetrica:
  "comparacao_de_floats maior \<Longrightarrow> maior x y \<Longrightarrow> \<not> maior y x"
  using comparacao_irreflexiva comparacao_transitiva by metis

lemma max_scan_in: "max_scan maior best xs \<in> set (best # xs)"
  by (induction xs arbitrary: best) auto

text \<open>The candidate of the scan only changes to a value that compares greater.\<close>

lemma max_scan_sobe:
  assumes c: "comparacao_de_floats maior"
  shows "max_scan maior best xs = best \<or> maior (snd (max_scan maior best xs)) (snd best)"
proof (induction xs arbitrary: best)
  case Nil
  then show ?case by simp
next
  case (Cons y ys)
  show ?case
  proof (cases "maior (snd y) (snd best)")
    case True
    from Cons.IH [of y] show ?thesis
    proof
      assume "max_scan maior y ys = y"
      with True show ?thesis by simp
    next
      assume "maior (snd (max_scan maior y ys)) (snd y)"
      from comparacao_transitiva [OF c this True] True show ?thesis by simp
    qed
  next
    case False
    with Cons.IH [of best] show ?thesis by simp
  qed
qed

lemma max_scan_max:
  assumes c: "comparacao_de_floats maior"
  shows "x \<in> set (best # xs) \<Longrightarrow> \<not> maior (snd x) (snd (max_scan maior best xs))"
proof (induction xs arbitrary: best x)
  case Nil
  then show ?case by (simp add: comparacao_irreflexiva [OF c])
next
  case (Cons y ys)
  let ?b = "if maior (snd y) (snd best) then y else best"
  let ?r = "max_scan maior ?b ys"
  have r: "max_scan maior best (y # ys) = ?r" by simp
  have sobe: "?r = ?b \<or> maior (snd ?r) (snd ?b)" by (rule max_scan_sobe [OF c])
  have topo: "\<not> maior (snd ?b) (snd ?r)"
    by (rule Cons.IH) simp
  from Cons.prems consider "x \<in> set ys" | "x = y" | "x = best" by auto
  then have "\<not> maior (snd x) (snd ?r)"
  proof cases
    case 1
    then have "x \<in> set (?b # ys)" by simp
    then show ?thesis by (rule Cons.IH)
  next
    case 2
    show ?thesis
    proof (cases "maior (snd y) (snd best)")
      case True
      with topo 2 show ?thesis by simp
    next
      case False
      from sobe show ?thesis
      proof
        assume "?r = ?b"
        with False 2 show ?thesis by simp
      next
        assume "maior (snd ?r) (snd ?b)"
        with False have "maior (snd ?r) (snd best)" by simp
        from comparacao_nao_maior [OF c False this] 2 show ?thesis by simp
      qed
    qed
  next
    case 3
    show ?thesis
    proof (cases "maior (snd y) (snd best)")
      case False
      with topo 3 show ?thesis by simp
    next
      case True
      from sobe show ?thesis
      proof
        assume "?r = ?b"
        with True have "snd ?r = snd y" by simp
        with comparacao_assimetrica [OF c True] 3 show ?thesis by simp
      next
        assume "maior (snd ?r) (snd ?b)"
        with True have "maior (snd ?r) (snd y)" by simp
        from comparacao_transitiva [OF c this True] have "maior (snd ?r) (snd best)" .
        from comparacao_assimetrica [OF c this] 3 show ?thesis by simp
      qed
    qed
  qed
  with r show ?case by simp
qed

subsection \<open>Rendering of years and month names\<close>

lemma menor_que_dez: "k < 10 \<Longrightarrow> k \<in> {0, 1, 2, 3, 4, 5, 6, 7, 8, 9 :: nat}"
  by (simp only: insert_iff empty_iff simp_thms) presburger

lemma digit_val_tabela: "n < 10 \<Longrightarrow> digit_val (''0123456789'' ! n) = n"
  using menor_que_dez [of n] by (auto simp: digit_val_def)


lemma digits_val_snoc: "digits_val (s @ [c]) = 10 * digits_val s + digit_val c"
  by (simp add: digits_val_def)

lemma digits_val_digitos: "digits_val (digitos n) = n"
proof (induction n rule: digitos.induct)
  case (1 n)
  show ?case
  proof (cases "n < 10")
    case True
    then show ?thesis
      by (subst digitos.simps) (simp add: digits_val_def digit_val_tabela)
  next
    case False
    with 1 have "digits_val (digitos (n div 10)) = n div 10" by simp
    with False show ?thesis
      by (subst digitos.simps) (simp add: digits_val_snoc digit_val_tabela)
  qed
qed




lemma nome_mes_sem_barra: "CHR ''/'' \<notin> set (nome_mes m)"
  by (simp add: nome_mes_def)

lemma mes_um_a_doze:
  "1 \<le> m \<Longrightarrow> m \<le> 12 \<Longrightarrow> m \<in> {1, 2, 3, 4, 5, 6, 7, 8, 9, 10, 11, 12 :: int}"
  by (simp only: insert_iff empty_iff simp_thms) presburger

lemma nome_mes_inj:
  "1 \<le> m \<Longrightarrow> m \<le> 12 \<Longrightarrow> 1 \<le> m' \<Longrightarrow> m' \<le> 12 \<Longrightarrow> nome_mes m = nome_mes m' \<Longrightarrow> m = m'"
  using mes_um_a_doze [of m] mes_um_a_doze [of m'] by (auto simp: nome_mes_def)

lemma digits_val_zeros: "digits_val (replicate n (CHR ''0'') @ s) = digits_val s"
proof -
  have "foldl (\<lambda>a c. 10 * a + digit_val c) 0 (replicate n (CHR ''0'')) = 0"
    by (induction n) (simp_all add: digit_val_def)
  then show ?thesis by (simp add: digits_val_def)
qed

lemma digits_val_strftime_Y: "digits_val (strftime_Y d) = nat (year d)"
  by (simp add: strftime_Y_def Let_def digits_val_zeros digits_val_digitos)

lemma separar_no_caractere:
  "x \<notin> set a \<Longrightarrow> x \<notin> set b \<Longrightarrow> a @ x # c = b @ x # d \<Longrightarrow> a = b \<and> c = d"
proof (induction a arbitrary: b)
  case Nil
  then show ?case by (cases b) auto
next
  case (Cons y a)
  then show ?case by (cases b) auto
qed

lemma strftime_B_Y_inj:
  assumes "1 \<le> month d" "month d \<le> 12" "1 \<le> month d'" "month d' \<le> 12"
    and "0 \<le> year d" "0 \<le> year d'"
  shows "(strftime_B_Y d = strftime_B_Y d') = (month d = month d' \<and> year d = year d')"
proof
  assume e: "strftime_B_Y d = strftime_B_Y d'"
  then have "nome_mes (month d) @ CHR ''/'' # strftime_Y d
      = nome_mes (month d') @ CHR ''/'' # strftime_Y d'"
    by (simp add: strftime_B_Y_def strftime_B_def)
  then have "nome_mes (month d) = nome_mes (month d') \<and> strftime_Y d = strftime_Y d'"
    by (rule separar_no_caractere [OF nome_mes_sem_barra nome_mes_sem_barra])
  then have n: "nome_mes (month d) = nome_mes (month d')" and y: "strftime_Y d = strftime_Y d'"
    by simp_all
  from n assms have "month d = month d'" by (simp add: nome_mes_inj)
  moreover from y have "digits_val (strftime_Y d) = digits_val (strftime_Y d')" by simp
  then have "nat (year d) = nat (year d')" by (simp add: digits_val_strftime_Y)
  with assms have "year d = year d'" by simp
  ultimately show "month d = month d' \<and> year d = year d'" by simp
next
  assume "month d = month d' \<and> year d = year d'"
  then show "strftime_B_Y d = strftime_B_Y d'"
    by (simp add: strftime_B_Y_def strftime_B_def strftime_Y_def)
qed

subsection \<open>Wettest month\<close>

lemma somar_precipitacao_distinct:
  "distinct (map fst d) \<Longrightarrow> distinct (map fst (somar_precipitacao soma zero rs d))"
  by (induction rs arbitrary: d) (simp_all add: Let_def distinct_dict_set split: option.split)

lemma somar_precipitacao_map_of:
  "map_of (somar_precipitacao soma zero rs d) k =
     (if map_of d k = None \<and> k \<notin> (strftime_B_Y \<circ> data) ` set rs then None
      else Some (foldl soma (case map_of d k of None \<Rightarrow> zero | Some s \<Rightarrow> s)
                   (map precipitacao (filter (\<lambda>r. strftime_B_Y (data r) = k) rs))))"
proof (induction rs arbitrary: d)
  case Nil
  then show ?case by (cases "map_of d k") simp_all
next
  case (Cons r rs)
  show ?case
    by (cases "map_of d (strftime_B_Y (data r))")
      (auto simp: Let_def Cons.IH map_of_dict_set split: option.split)
qed

lemma somar_precipitacao_nao_vazio:
  "d \<noteq> [] \<or> rs \<noteq> [] \<Longrightarrow> somar_precipitacao soma zero rs d \<noteq> []"
  by (induction rs arbitrary: d) (simp_all add: Let_def dict_set_nao_vazio split: option.split)

lemma total_da_chave:
  "map_of (somar_precipitacao soma zero dados []) k =
     (if k \<in> (\<lambda>r. strftime_B_Y (data r)) ` set dados
      then Some (foldl soma zero
                  (map precipitacao (filter (\<lambda>r. strftime_B_Y (data r) = k) dados)))
      else None)"
  by (simp add: somar_precipitacao_map_of image_comp [symmetric] comp_def)

lemma mes_mais_chuvoso_retorna:
  assumes "dados \<noteq> []"
  shows "\<exists>k v. mes_mais_chuvoso soma zero maior dados = Inr (k, v)
     \<and> (k, v) \<in> set (somar_precipitacao soma zero dados [])"
proof -
  from assms obtain x xs where g: "somar_precipitacao soma zero dados [] = x # xs"
    using somar_precipitacao_nao_vazio [of "[]" dados soma zero]
    by (cases "somar_precipitacao soma zero dados []") auto
  obtain k v where kv: "max_scan maior x xs = (k, v)" by (cases "max_scan maior x xs")
  have "mes_mais_chuvoso soma zero maior dados = Inr (k, v)"
    by (simp add: mes_mais_chuvoso_def max_por_valor_def g kv)
  moreover have "(k, v) \<in> set (somar_precipitacao soma zero dados [])"
    using max_scan_in [of maior x xs] by (simp add: g kv)
  ultimately show ?thesis by blast
qed

lemma mes_mais_chuvoso_max:
  assumes c: "comparacao_de_floats maior"
    and r: "mes_mais_chuvoso soma zero maior dados = Inr (k, v)"
    and y: "y \<in> set (somar_precipitacao soma zero dados [])"
  shows "\<not> maior (snd y) v"
proof -
  from y obtain x xs where g: "somar_precipitacao soma zero dados [] = x # xs"
    by (cases "somar_precipitacao soma zero dados []") auto
  with r have kv: "max_scan maior x xs = (k, v)"
    by (simp add: mes_mais_chuvoso_def max_por_valor_def)
  from y g have "y \<in> set (x # xs)" by simp
  from max_scan_max [OF c this] kv show ?thesis by simp
qed

text \<open>
  C5. The float addition, zero and comparison are those of the interpreter: the statement
  holds for every addition and zero, and for every comparison with the three facts of
  \<open>comparacao_de_floats\<close>. For a non-empty collection the report returns a pair: a key that
  is the month-name/year key of some record, together with the accumulated sum of that key,
  which is the precipitation of all the records of the collection bearing the key, whatever
  their year, added in collection order to zero with the float addition. That sum is
  maximal: no key of the collection has an accumulated sum that compares greater. Two
  datetimes have the same key exactly when their month and year agree. In particular, a
  collection of one January 2010 record with precipitation 5.0 and one February 2010 record
  with precipitation 20.0, in either order, gives the February 2010 key with total 20.0
  (adding 5.0 or 20.0 to zero gives the same float back, and 20.0 compares greater than 5.0).
\<close>

theorem mes_mais_chuvoso_spec:
  assumes c: "comparacao_de_floats maior"
  shows "(dados \<noteq> [] \<longrightarrow>
      (\<exists>rotulo total. mes_mais_chuvoso soma zero maior dados = Inr (rotulo, total)
         \<and> rotulo \<in> (\<lambda>r. strftime_B_Y (data r)) ` set dados
         \<and> total = foldl soma zero (map precipitacao
                      (filter (\<lambda>r. strftime_B_Y (data r) = rotulo) dados))
         \<and> (\<forall>r \<in> set dados.
               \<not> maior
                   (foldl soma zero (map precipitacao
                      (filter (\<lambda>r'. strftime_B_Y (data r') = strftime_B_Y (data r)) dados)))
                   total)))
   \<and> (1 \<le> month d \<and> month d \<le> 12 \<and> 1 \<le> month d' \<and> month d' \<le> 12
        \<and> 0 \<le> year d \<and> 0 \<le> year d'
        \<longrightarrow> (strftime_B_Y d = strftime_B_Y d') = (month d = month d' \<and> year d = year d'))
   \<and> (month (data a) = 1 \<and> year (data a) = 2010 \<and> precipitacao a = cinco
        \<and> month (data b) = 2 \<and> year (data b) = 2010 \<and> precipitacao b = vinte
        \<and> soma zero cinco = cinco \<and> soma zero vinte = vinte \<and> maior vinte cinco
        \<longrightarrow> mes_mais_chuvoso soma zero maior [a, b] = Inr (''February/2010'', vinte)
            \<and> mes_mais_chuvoso soma zero maior [b, a] = Inr (''February/2010'', vinte))"
proof (intro conjI impI)
  assume ne: "dados \<noteq> []"
  let ?g = "somar_precipitacao soma zero dados []"
  from mes_mais_chuvoso_retorna [OF ne] obtain k v where
    r: "mes_mais_chuvoso soma zero maior dados = Inr (k, v)" and i: "(k, v) \<in> set ?g"
    by blast
  have dist: "distinct (map fst ?g)"
    by (rule somar_precipitacao_distinct) simp
  with i have kv: "map_of ?g k = Some v" by simp
  then have k: "k \<in> (\<lambda>r. strftime_B_Y (data r)) ` set dados"
    and v: "v = foldl soma zero
        (map precipitacao (filter (\<lambda>r. strftime_B_Y (data r) = k) dados))"
    by (simp_all add: total_da_chave split: if_splits)
  have mx: "\<forall>r \<in> set dados.
      \<not> maior (foldl soma zero (map precipitacao
        (filter (\<lambda>r'. strftime_B_Y (data r') = strftime_B_Y (data r)) dados))) v"
  proof
    fix r assume "r \<in> set dados"
    let ?s = "foldl soma zero (map precipitacao
        (filter (\<lambda>r'. strftime_B_Y (data r') = strftime_B_Y (data r)) dados))"
    from \<open>r \<in> set dados\<close> have "map_of ?g (strftime_B_Y (data r)) = Some ?s"
      by (simp add: total_da_chave)
    then have "(strftime_B_Y (data r), ?s) \<in> set ?g" by (rule map_of_SomeD)
    from mes_mais_chuvoso_max [OF c r this] show "\<not> maior ?s v" by simp
  qed
  from r k v mx show "\<exists>rotulo total. mes_mais_chuvoso soma zero maior dados = Inr (rotulo, total)
         \<and> rotulo \<in> (\<lambda>r. strftime_B_Y (data r)) ` set dados
         \<and> total = foldl soma zero (map precipitacao
                      (filter (\<lambda>r. strftime_B_Y (data r) = rotulo) dados))
         \<and> (\<forall>r \<in> set dados.
               \<not> maior
                   (foldl soma zero (map precipitacao
                      (filter (\<lambda>r'. strftime_B_Y (data r') = strftime_B_Y (data r)) dados)))
                   total)"
    by blast
next
  assume "1 \<le> month d \<and> month d \<le> 12 \<and> 1 \<le> month d' \<and> month d' \<le> 12
        \<and> 0 \<le> year d \<and> 0 \<le> year d'"
  then show "(strftime_B_Y d = strftime_B_Y d') = (month d = month d' \<and> year d = year d')"
    by (simp add: strftime_B_Y_inj)
next
  assume h: "month (data a) = 1 \<and> year (data a) = 2010 \<and> precipitacao a = cinco
        \<and> month (data b) = 2 \<and> year (data b) = 2010 \<and> precipitacao b = vinte
        \<and> soma zero cinco = cinco \<and> soma zero vinte = vinte \<and> maior vinte cinco"
  then have ka: "strftime_B_Y (data a) = ''January/2010''"
    and kb: "strftime_B_Y (data b) = ''February/2010''"
    by (simp_all add: strftime_B_Y_def strftime_B_def strftime_Y_def nome_mes_def digitos.simps)
  from h have "maior vinte cinco" by simp
  from comparacao_assimetrica [OF c this] have n: "\<not> maior cinco vinte" .
  from h show "mes_mais_chuvoso soma zero maior [a, b] = Inr (''February/2010'', vinte)"
    by (simp add: mes_mais_chuvoso_def max_por_valor_def ka kb)
  from h n show "mes_mais_chuvoso soma zero maior [b, a] = Inr (''February/2010'', vinte)"
    by (simp add: mes_mais_chuvoso_def max_por_valor_def ka kb)
qed

text \<open>
  The witness takes for floats the reals with one more value, \<open>None\<close>, that stands for NaN:
  a sum with NaN is NaN and every comparison with NaN is false. A collection whose first
  key has a NaN sum returns that key, as the scan of the code does.
\<close>

theorem mes_mais_chuvoso_spec_witness:
  "comparacao_de_floats
     (\<lambda>x y. case x of None \<Rightarrow> False | Some u \<Rightarrow> (case y of None \<Rightarrow> False | Some v \<Rightarrow> v < (u::real)))
   \<and> [\<lparr>data = \<lparr>year = 2011, month = 3, day = 7\<rparr>, precipitacao = None, temp_max = Some 29,
        temp_min = Some 19, umidade = Some 79, vento = Some 2\<rparr>,
       \<lparr>data = \<lparr>year = 2010, month = 1, day = 10\<rparr>, precipitacao = Some (5::real),
        temp_max = Some 30, temp_min = Some 20, umidade = Some 80, vento = Some 3\<rparr>] \<noteq> []
   \<and> mes_mais_chuvoso
       (\<lambda>x y. case x of None \<Rightarrow> None | Some u \<Rightarrow> (case y of None \<Rightarrow> None | Some v \<Rightarrow> Some (u + v)))
       (Some 0)
       (\<lambda>x y. case x of None \<Rightarrow> False | Some u \<Rightarrow> (case y of None \<Rightarrow> False | Some v \<Rightarrow> v < u))
       [\<lparr>data = \<lparr>year = 2011, month = 3, day = 7\<rparr>, precipitacao = None, temp_max = Some 29,
          temp_min = Some 19, umidade = Some 79, vento = Some 2\<rparr>,
        \<lparr>data = \<lparr>year = 2010, month = 1, day = 10\<rparr>, precipitacao = Some (5::real),
          temp_max = Some 30, temp_min = Some 20, umidade = Some 80, vento = Some 3\<rparr>]
     = Inr (''March/2011'', None)
   \<and> strftime_B_Y \<lparr>year = 2010, month = 1, day = 10\<rparr>
       \<noteq> strftime_B_Y \<lparr>year = 2010, month = 2, day = 11\<rparr>
   \<and> mes_mais_chuvoso
       (\<lambda>x y. case x of None \<Rightarrow> None | Some u \<Rightarrow> (case y of None \<Rightarrow> None | Some v \<Rightarrow> Some (u + v)))
       (Some 0)
       (\<lambda>x y. case x of None \<Rightarrow> False | Some u \<Rightarrow> (case y of None \<Rightarrow> False | Some v \<Rightarrow> v < u))
       [\<lparr>data = \<lparr>year = 2010, month = 1, day = 10\<rparr>, precipitacao = Some (5::real),
          temp_max = Some 30, temp_min = Some 20, umidade = Some 80, vento = Some 3\<rparr>,
        \<lparr>data = \<lparr>year = 2010, month = 2, day = 11\<rparr>, precipitacao = Some 20,
          temp_max = Some 31, temp_min = Some 21, umidade = Some 81, vento = Some 4\<rparr>]
     = Inr (''February/2010'', Some 20)"
proof -
  let ?soma = "\<lambda>x y. case x of None \<Rightarrow> None
      | Some u \<Rightarrow> (case y of None \<Rightarrow> None | Some v \<Rightarrow> Some (u + (v::real)))"
  let ?maior = "\<lambda>x y. case x of None \<Rightarrow> False
      | Some u \<Rightarrow> (case y of None \<Rightarrow> False | Some v \<Rightarrow> v < (u::real))"
  have c: "comparacao_de_floats ?maior"
    by (auto simp: comparacao_de_floats_def split: option.splits)
  let ?nan = "\<lparr>data = \<lparr>year = 2011, month = 3, day = 7\<rparr>, precipitacao = None,
      temp_max = Some 29, temp_min = Some 19, umidade = Some 79, vento = Some (2::real)\<rparr>"
  let ?a = "\<lparr>data = \<lparr>year = 2010, month = 1, day = 10\<rparr>, precipitacao = Some 5,
      temp_max = Some 30, temp_min = Some 20, umidade = Some 80, vento = Some (3::real)\<rparr>"
  let ?b = "\<lparr>data = \<lparr>year = 2010, month = 2, day = 11\<rparr>, precipitacao = Some 20,
      temp_max = Some 31, temp_min = Some 21, umidade = Some 81, vento = Some (4::real)\<rparr>"
  note t = mes_mais_chuvoso_spec [OF c,
      where soma = ?soma and zero = "Some 0" and dados = "[?nan, ?a]"
        and d = "\<lparr>year = 2010, month = 1, day = 10\<rparr>"
        and d' = "\<lparr>year = 2010, month = 2, day = 11\<rparr>"
        and a = ?a and b = ?b and cinco = "Some 5" and vinte = "Some 20"]
  have chaves: "strftime_B_Y \<lparr>year = 2010, month = 1, day = 10\<rparr>
      \<noteq> strftime_B_Y \<lparr>year = 2010, month = 2, day = 11\<rparr>"
    using t [THEN conjunct2, THEN conjunct1] by simp
  have exemplo: "mes_mais_chuvoso ?soma (Some 0) ?maior [?a, ?b]
      = Inr (''February/2010'', Some 20)"
    using t [THEN conjunct2, THEN conjunct2] by simp
  have "[?nan, ?a] \<noteq> []" by simp
  with t [THEN conjunct1] obtain rotulo total where
    r: "mes_mais_chuvoso ?soma (Some 0) ?maior [?nan, ?a] = Inr (rotulo, total)"
    by blast
  have "mes_mais_chuvoso ?soma (Some 0) ?maior [?nan, ?a] = Inr (''March/2011'', None)"
    by (simp add: mes_mais_chuvoso_def max_por_valor_def strftime_B_Y_def strftime_B_def
        strftime_Y_def nome_mes_def digitos.simps)
  with r have geral: "mes_mais_chuvoso ?soma (Some 0) ?maior [?nan, ?a]
      = Inr (''March/2011'', None)"
    by simp
  from c chaves exemplo geral show ?thesis by simp
qed

text \<open>
  C9. On the empty collection the grouping is empty and the maximum raises ValueError; on a
  non-empty collection the grouping is non-empty, that branch is not reached and a pair of
  label and total is returned. This holds whatever the float operations are.
\<close>

theorem mes_mais_chuvoso_vazio:
  "mes_mais_chuvoso soma zero maior [] = Inl ValueError
   \<and> (dados \<noteq> [] \<longrightarrow>
        (\<exists>rotulo total. mes_mais_chuvoso soma zero maior dados = Inr (rotulo, total)))"
proof
  show "mes_mais_chuvoso soma zero maior [] = Inl ValueError"
    by (simp add: mes_mais_chuvoso_def max_por_valor_def)
next
  show "dados \<noteq> [] \<longrightarrow>
      (\<exists>rotulo total. mes_mais_chuvoso soma zero maior dados = Inr (rotulo, total))"
    using mes_mais_chuvoso_retorna [of dados soma zero maior] by blast
qed

theorem mes_mais_chuvoso_vazio_witness:
  "mes_mais_chuvoso (+) 0 (\<lambda>x y. y < x) ([] :: real registro list) = Inl ValueError
   \<and> [\<lparr>data = \<lparr>year = 2010, month = 1, day = 10\<rparr>, precipitacao = (5::real), temp_max = 30,
        temp_min = 20, umidade = 80, vento = 3\<rparr>] \<noteq> []
   \<and> (\<exists>rotulo total.
        mes_mais_chuvoso (+) 0 (\<lambda>x y. y < x)
          [\<lparr>data = \<lparr>year = 2010, month = 1, day = 10\<rparr>, precipitacao = (5::real),
             temp_max = 30, temp_min = 20, umidade = 80, vento = 3\<rparr>]
        = Inr (rotulo, total))"
  using mes_mais_chuvoso_vazio
    [of "(+)" 0 "\<lambda>x y. y < x"
        "[\<lparr>data = \<lparr>year = 2010, month = 1, day = 10\<rparr>, precipitacao = (5::real),
            temp_max = 30, temp_min = 20, umidade = 80, vento = 3\<rparr>]"]
  by simp

subsection \<open>Average minimum temperature of a month\<close>

text \<open>
  C7. For a month argument outside 1..12 the function returns the empty mapping, whatever the
  collection, and raises nothing.
\<close>

theorem media_temp_minima_mes_invalido:
  "\<not> (1 \<le> mes \<and> mes \<le> 12) \<Longrightarrow> media_temp_minima_mes dados mes = Inr []"
  by (simp add: media_temp_minima_mes_def)

theorem media_temp_minima_mes_invalido_witness:
  "\<not> ((1::int) \<le> 13 \<and> (13::int) \<le> 12)
   \<and> media_temp_minima_mes
       [\<lparr>data = \<lparr>year = 2007, month = 1, day = 10\<rparr>, precipitacao = (5::real), temp_max = 30,
          temp_min = 10, umidade = 80, vento = 3\<rparr>]
       13
     = Inr []"
  using media_temp_minima_mes_invalido
    [of 13 "[\<lparr>data = \<lparr>year = 2007, month = 1, day = 10\<rparr>, precipitacao = (5::real), temp_max = 30,
               temp_min = 10, umidade = 80, vento = 3\<rparr>]"]
  by simp














end
